theory Spec2Isabelle
  imports Main "HOL-Library.Word"
begin

section \<open>Hackflight: the flight-control loop and its collaborators\<close>

text \<open>
  The repository's \<^verbatim>\<open>hackflight.hpp\<close> defines the class \<^verbatim>\<open>Hackflight\<close>: its
  \<^verbatim>\<open>init\<close> and \<^verbatim>\<open>update\<close> methods and the handlers \<^verbatim>\<open>outer\<close>, \<^verbatim>\<open>inner\<close>,
  \<^verbatim>\<open>checkAngle\<close> and \<^verbatim>\<open>flashLed\<close>. The classes it calls into (\<^verbatim>\<open>Board\<close>,
  \<^verbatim>\<open>Receiver\<close>, \<^verbatim>\<open>Mixer\<close>, \<^verbatim>\<open>Stabilize\<close>, \<^verbatim>\<open>Altitude\<close>, \<^verbatim>\<open>MSP\<close>) are declared in
  headers that are not part of the sources at hand, so they are parameters of the model:

  \<^item> the state of all collaborators together is one value of an arbitrary type \<open>'w\<close>
    (one value, since the collaborators hold pointers to each other: \<^verbatim>\<open>msp.init\<close> is
    given the mixer, the receiver and the board);
  \<^item> every call of a collaborator method is a constructor of the datatype \<open>call\<close>, with
    the arguments the source passes; what the call does to the collaborators is the
    parameter \<open>effect\<close>, and every call is also appended to a trace, in order;
  \<^item> an array of the object that is passed to a collaborator (\<^verbatim>\<open>eulerAngles\<close> to
    \<^verbatim>\<open>alti.fuseWithImu\<close>, \<^verbatim>\<open>stab.update\<close> and \<^verbatim>\<open>msp.update\<close>) is recorded with its
    contents at the call and is read only; \<^verbatim>\<open>board->getImu\<close>, whose two arguments
    are its outputs, is the one call that writes to the arrays it is given;
  \<^item> what the source reads back from a collaborator (\<^verbatim>\<open>receiver->arming()\<close>,
    \<^verbatim>\<open>stab.pidRoll\<close>, \<^verbatim>\<open>board->getMicros()\<close>, ...) is an observer of \<open>'w\<close>: a read
    changes nothing and is not recorded in the trace;
  \<^item> \<^verbatim>\<open>float\<close> is an arbitrary type \<open>'f\<close>, and the four floating-point operations
    the source performs are parameters too.

  Every theorem below holds for all collaborators and all interpretations of \<^verbatim>\<open>float\<close>.
\<close>

subsection \<open>Data\<close>

type_synonym uint8_t = "8 word"
type_synonym uint32_t = "32 word"
type_synonym int16_t = "16 word" \<comment> \<open>two's complement, read with \<open>sint\<close>\<close>
type_synonym int32_t = "32 word" \<comment> \<open>two's complement, read with \<open>sint\<close>\<close>

text \<open>
  A \<^verbatim>\<open>float[3]\<close> indexed by \<^verbatim>\<open>AXIS_ROLL\<close>, \<^verbatim>\<open>AXIS_PITCH\<close>, \<^verbatim>\<open>AXIS_YAW\<close>. The three
  index constants are declared outside the sources at hand; the record gives each
  its own slot.
\<close>

record 'f axes =
  AXIS_ROLL :: 'f
  AXIS_PITCH :: 'f
  AXIS_YAW :: 'f

text \<open>The calls \<^verbatim>\<open>Hackflight\<close> makes into its collaborators.\<close>

datatype 'f call =
    Board_init
  | Board_delayMilliseconds uint32_t
  | Board_ledSet bool
  | Board_getImu
  | Receiver_init
  | Receiver_update
  | Receiver_computeExpo 'f
  | Stab_init
  | Stab_resetIntegral
  | Stab_update "'f axes" "'f axes"
  | Mixer_init
  | Mixer_cutMotors
  | Mixer_runDisarmed
  | Mixer_runArmed 'f 'f 'f 'f
  | Msp_init
  | Msp_update "'f axes" bool
  | Alti_init
  | Alti_computePid bool
  | Alti_handleAuxSwitch uint8_t 'f
  | Alti_fuseWithImu "'f axes" bool
  | Alti_modifyDemand

text \<open>
  The collaborators. \<open>getMicros\<close> is the clock after the cast to \<^verbatim>\<open>uint32_t\<close>.
  \<open>getImu\<close> is given the array \<^verbatim>\<open>eulerAngles\<close> as it is before the
  call and returns the two arrays \<^verbatim>\<open>board->getImu\<close> fills in. \<open>demandThrottle\<close> is
  \<^verbatim>\<open>receiver->demands[Receiver::DEMAND_THROTTLE]\<close>; \<^verbatim>\<open>receiver->demands\<close> itself lives
  in \<open>'w\<close>, where \<^verbatim>\<open>stab.update\<close> and \<^verbatim>\<open>alti.modifyDemand\<close> reach it. The receiver's
  aux state has the type of the field \<^verbatim>\<open>auxState\<close> it is stored in and compared with.
  The last four fields are the \<^verbatim>\<open>float\<close> operations of the source:
  \<open>float_sub a b\<close> is \<^verbatim>\<open>a - b\<close>, \<open>float_is_negative a\<close> is \<^verbatim>\<open>a < 0\<close>, \<open>float_add_2pi a\<close> is
  \<^verbatim>\<open>a + 2*M_PI\<close>, and \<open>float_fabs_less a b\<close> is \<^verbatim>\<open>fabs(a) < b\<close>.
\<close>

record ('w, 'f) collab =
  effect :: "'f call \<Rightarrow> 'w \<Rightarrow> 'w"
  getMicros :: "'w \<Rightarrow> uint32_t"
  getImu :: "'w \<Rightarrow> 'f axes \<Rightarrow> 'f axes \<times> 'f axes"
  lostSignal :: "'w \<Rightarrow> bool"
  throttleIsDown :: "'w \<Rightarrow> bool"
  changed :: "'w \<Rightarrow> bool"
  disarming :: "'w \<Rightarrow> bool"
  arming :: "'w \<Rightarrow> bool"
  getAuxState :: "'w \<Rightarrow> uint8_t"
  demandThrottle :: "'w \<Rightarrow> 'f"
  pidRoll :: "'w \<Rightarrow> 'f"
  pidPitch :: "'w \<Rightarrow> 'f"
  pidYaw :: "'w \<Rightarrow> 'f"
  maxArmingAngle :: "'w \<Rightarrow> 'f"
  float_sub :: "'f \<Rightarrow> 'f \<Rightarrow> 'f"
  float_is_negative :: "'f \<Rightarrow> bool"
  float_add_2pi :: "'f \<Rightarrow> 'f"
  float_fabs_less :: "'f \<Rightarrow> 'f \<Rightarrow> bool"

subsection \<open>TimedTask\<close>

record TimedTask =
  period :: uint32_t
  lastFired :: uint32_t

text \<open>
  Modelled from the spec: the class \<^verbatim>\<open>TimedTask\<close> of \<^verbatim>\<open>timedtask.hpp\<close>, which is not
  among the sources at hand. \<open>TimedTask_init\<close> is the spec's \<^verbatim>\<open>initialize(period)\<close>
  ("sets the interval; baseline firing time starts at a defined epoch (time zero)"),
  \<open>checkAndUpdate\<close> its \<^verbatim>\<open>consumeIfElapsed(now)\<close> ("returns true and advances
  lastFired = now iff now - lastFired >= period; otherwise returns false with no
  mutation"), and \<open>ready\<close> its \<^verbatim>\<open>peekElapsed(now)\<close> ("pure query, identical
  elapsed-time test, never mutates lastFired"). Time is the \<^verbatim>\<open>uint32_t\<close> that
  \<^verbatim>\<open>update\<close> passes, so the subtraction is the unsigned one, modulo \<open>2 ^ 32\<close>.
\<close>

definition TimedTask_init :: "uint32_t \<Rightarrow> TimedTask" where
  "TimedTask_init p = \<lparr>period = p, lastFired = 0\<rparr>"

definition checkAndUpdate :: "uint32_t \<Rightarrow> TimedTask \<Rightarrow> bool \<times> TimedTask" where
  "checkAndUpdate now t =
     (if now - lastFired t \<ge> period t then (True, t\<lparr>lastFired := now\<rparr>) else (False, t))"

definition ready :: "uint32_t \<Rightarrow> TimedTask \<Rightarrow> bool" where
  "ready now t = (now - lastFired t \<ge> period t)"

text \<open>A sequence of consuming checks on one task, with the result of each.\<close>

fun checks :: "TimedTask \<Rightarrow> uint32_t list \<Rightarrow> bool list" where
  "checks t [] = []"
| "checks t (now # nows) =
     (case checkAndUpdate now t of (fired, t') \<Rightarrow> fired # checks t' nows)"

subsection \<open>The class Hackflight\<close>

record ('w, 'f) Hackflight =
  world :: 'w
  calls :: "'f call list"
  innerTask :: TimedTask
  outerTask :: TimedTask
  angleCheckTask :: TimedTask
  altitudeTask :: TimedTask
  armed :: bool
  failsafe :: bool
  yawInitial :: 'f
  auxState :: uint8_t
  eulerAngles :: "'f axes"
  safeToArm :: bool

definition imuLoopMicro :: uint32_t where "imuLoopMicro = 3500"
definition rcLoopMilli :: uint32_t where "rcLoopMilli = 10"
definition altHoldLoopMilli :: uint32_t where "altHoldLoopMilli = 25"
definition angleCheckMilli :: uint32_t where "angleCheckMilli = 500"
definition delayMilli :: uint32_t where "delayMilli = 100"
definition ledFlashMilli :: uint32_t where "ledFlashMilli = 1000"
definition ledFlashCount :: uint32_t where "ledFlashCount = 20"

text \<open>One call of a collaborator method: the collaborators change, the trace grows.\<close>

definition call ::
  "('w, 'f) collab \<Rightarrow> 'f call \<Rightarrow> ('w, 'f) Hackflight \<Rightarrow> ('w, 'f) Hackflight" where
  "call c ev s = s\<lparr>world := effect c ev (world s), calls := calls s @ [ev]\<rparr>"

text \<open>
  \<^verbatim>\<open>flashLed\<close>. The loop counter is the \<^verbatim>\<open>uint8_t i\<close> of the source, compared with
  the \<^verbatim>\<open>uint32_t ledFlashCount\<close> after the integer promotion.
\<close>

function flashLed_loop ::
  "('w, 'f) collab \<Rightarrow> uint32_t \<Rightarrow> uint8_t \<Rightarrow> ('w, 'f) Hackflight \<Rightarrow> ('w, 'f) Hackflight" where
  "flashLed_loop c pauseMilli i s =
     (if (ucast i :: uint32_t) < ledFlashCount then
        flashLed_loop c pauseMilli (i + 1)
          (call c (Board_delayMilliseconds pauseMilli)
            (call c (Board_ledSet False)
              (call c (Board_delayMilliseconds pauseMilli)
                (call c (Board_ledSet True) s))))
      else s)"
  by pat_completeness auto
termination
proof (relation "measure (\<lambda>(c, pauseMilli, i, s). 20 - unat i)")
  show "wf (measure (\<lambda>(c, pauseMilli, i, s). 20 - unat i))"
    by simp
next
  fix c :: "('w, 'f) collab" and pauseMilli :: uint32_t and i :: uint8_t
    and s :: "('w, 'f) Hackflight"
  assume "(ucast i :: uint32_t) < ledFlashCount"
  then have "(ucast i :: uint32_t) < 20"
    by (simp add: ledFlashCount_def)
  then have "unat i < 20"
    by transfer simp
  then have "unat (i + 1) = unat i + 1"
    by (simp add: unat_word_ariths)
  with \<open>unat i < 20\<close>
  show "((c, pauseMilli, i + 1,
          call c (Board_delayMilliseconds pauseMilli)
            (call c (Board_ledSet False)
              (call c (Board_delayMilliseconds pauseMilli)
                (call c (Board_ledSet True) s)))),
         (c, pauseMilli, i, s))
        \<in> measure (\<lambda>(c, pauseMilli, i, s). 20 - unat i)"
    by simp
qed

definition flashLed :: "('w, 'f) collab \<Rightarrow> ('w, 'f) Hackflight \<Rightarrow> ('w, 'f) Hackflight" where
  "flashLed c s =
     (let pauseMilli = ledFlashMilli div ledFlashCount;
          s1 = call c (Board_ledSet False) s;
          s2 = flashLed_loop c pauseMilli 0 s1
      in call c (Board_ledSet False) s2)"

text \<open>
  \<^verbatim>\<open>init\<close>. The assignments \<^verbatim>\<open>board = _board\<close> and \<^verbatim>\<open>receiver = _receiver\<close> fix which
  board and receiver the collaborator state \<open>'w\<close> stands for. The argument is the
  object as it is when \<^verbatim>\<open>init\<close> is entered.
\<close>

definition init :: "('w, 'f) collab \<Rightarrow> ('w, 'f) Hackflight \<Rightarrow> ('w, 'f) Hackflight" where
  "init c s =
     (let s1 = call c Board_init s;
          s2 = flashLed c s1;
          s3 = call c (Board_delayMilliseconds delayMilli) s2;
          s4 = s3\<lparr>innerTask := TimedTask_init imuLoopMicro,
                  outerTask := TimedTask_init (rcLoopMilli * 1000),
                  angleCheckTask := TimedTask_init (angleCheckMilli * 1000)\<rparr>;
          s5 = call c Receiver_init s4;
          s6 = call c Stab_init s5;
          s7 = call c Mixer_init s6;
          s8 = call c Msp_init s7;
          s9 = s8\<lparr>altitudeTask := TimedTask_init (altHoldLoopMilli * 1000)\<rparr>;
          s10 = call c Alti_init s9
      in s10\<lparr>armed := False, safeToArm := False, failsafe := False\<rparr>)"

text \<open>
  \<^verbatim>\<open>outer\<close>, in four parts: \<open>outer_receiver\<close> is the update of the receiver and the
  reset of the integral, \<open>outer_commands\<close> is the \<^verbatim>\<open>if (receiver->changed())\<close>
  statement, \<open>outer_arm\<close> is the block under its comment \<^verbatim>\<open>// Arming\<close>, and
  \<open>outer_aux\<close> is the detection of aux-switch changes that ends the handler.
\<close>

definition outer_receiver ::
  "('w, 'f) collab \<Rightarrow> ('w, 'f) Hackflight \<Rightarrow> ('w, 'f) Hackflight" where
  "outer_receiver c s =
     (let s1 = call c Receiver_update s
      in if throttleIsDown c (world s1) then call c Stab_resetIntegral s1 else s1)"

definition outer_arm :: "('w, 'f) collab \<Rightarrow> ('w, 'f) Hackflight \<Rightarrow> ('w, 'f) Hackflight" where
  "outer_arm c s =
     (if arming c (world s) then
        (if \<not> failsafe s \<and> safeToArm s then
           (let s1 = s\<lparr>auxState := getAuxState c (world s)\<rparr>
            in if auxState s1 = 0 then
                 (if \<not> armed s1 then
                    s1\<lparr>yawInitial := AXIS_YAW (eulerAngles s1), armed := True\<rparr>
                  else s1)
               else s1)
         else s)
      else s)"

definition outer_commands ::
  "('w, 'f) collab \<Rightarrow> ('w, 'f) Hackflight \<Rightarrow> ('w, 'f) Hackflight" where
  "outer_commands c s =
     (if changed c (world s) then
        (if armed s then
           (if disarming c (world s) then
              (if armed s then s\<lparr>armed := False\<rparr> else s)
            else s)
         else outer_arm c s)
      else s)"

definition outer_aux :: "('w, 'f) collab \<Rightarrow> ('w, 'f) Hackflight \<Rightarrow> ('w, 'f) Hackflight" where
  "outer_aux c s =
     (if getAuxState c (world s) \<noteq> auxState s then
        (let s1 = s\<lparr>auxState := getAuxState c (world s)\<rparr>
         in call c (Alti_handleAuxSwitch (auxState s1) (demandThrottle c (world s1))) s1)
      else s)"

definition outer :: "('w, 'f) collab \<Rightarrow> ('w, 'f) Hackflight \<Rightarrow> ('w, 'f) Hackflight" where
  "outer c s = outer_aux c (outer_commands c (outer_receiver c s))"

text \<open>
  \<^verbatim>\<open>inner\<close>, in three parts: \<open>inner_stabilize\<close> runs from \<^verbatim>\<open>receiver->computeExpo\<close> to
  \<^verbatim>\<open>stab.update\<close>, \<open>inner_mixer\<close> is the \<^verbatim>\<open>if\<close>/\<^verbatim>\<open>else if\<close>/\<^verbatim>\<open>else\<close> that drives
  the mixer, and \<^verbatim>\<open>msp.update\<close> ends the handler.
\<close>

definition inner_stabilize ::
  "('w, 'f) collab \<Rightarrow> ('w, 'f) Hackflight \<Rightarrow> ('w, 'f) Hackflight" where
  "inner_stabilize c s =
     (let s1 = call c (Receiver_computeExpo
                 (float_sub c (AXIS_YAW (eulerAngles s)) (yawInitial s))) s;
          imu = getImu c (world s1) (eulerAngles s1);
          gyroRadiansPerSecond = snd imu;
          s2 = (call c Board_getImu s1)\<lparr>eulerAngles := fst imu\<rparr>;
          s3 = (if float_is_negative c (AXIS_YAW (eulerAngles s2)) then
                  s2\<lparr>eulerAngles := (eulerAngles s2)
                        \<lparr>AXIS_YAW := float_add_2pi c (AXIS_YAW (eulerAngles s2))\<rparr>\<rparr>
                else s2);
          s4 = call c (Board_ledSet (armed s3)) s3;
          s5 = call c (Alti_fuseWithImu (eulerAngles s4) (armed s4)) s4;
          s6 = call c Alti_modifyDemand s5
      in call c (Stab_update (eulerAngles s6) gyroRadiansPerSecond) s6)"

definition inner_mixer :: "('w, 'f) collab \<Rightarrow> ('w, 'f) Hackflight \<Rightarrow> ('w, 'f) Hackflight" where
  "inner_mixer c s =
     (if \<not> armed s then call c Mixer_runDisarmed s
      else if \<not> failsafe s \<and> \<not> throttleIsDown c (world s) then
        call c (Mixer_runArmed (demandThrottle c (world s))
                  (pidRoll c (world s)) (pidPitch c (world s)) (pidYaw c (world s))) s
      else call c Mixer_cutMotors s)"

definition inner :: "('w, 'f) collab \<Rightarrow> ('w, 'f) Hackflight \<Rightarrow> ('w, 'f) Hackflight" where
  "inner c s =
     (let s1 = inner_stabilize c s;
          s2 = inner_mixer c s1
      in call c (Msp_update (eulerAngles s2) (armed s2)) s2)"

definition checkAngle :: "('w, 'f) collab \<Rightarrow> ('w, 'f) Hackflight \<Rightarrow> ('w, 'f) Hackflight" where
  "checkAngle c s =
     s\<lparr>safeToArm :=
         float_fabs_less c (AXIS_ROLL (eulerAngles s)) (maxArmingAngle c (world s)) \<and>
         float_fabs_less c (AXIS_PITCH (eulerAngles s)) (maxArmingAngle c (world s))\<rparr>"

text \<open>
  \<^verbatim>\<open>update\<close>, statement by statement: the outer loop or else the altitude task, the
  inner loop, the angle check, and the failsafe. \<open>update_tasks\<close> is \<^verbatim>\<open>update\<close> up to
  the comment \<^verbatim>\<open>// Failsafe\<close>.
\<close>

definition update_outer ::
  "('w, 'f) collab \<Rightarrow> uint32_t \<Rightarrow> ('w, 'f) Hackflight \<Rightarrow> ('w, 'f) Hackflight" where
  "update_outer c currentTime s =
     (case checkAndUpdate currentTime (outerTask s) of (fired, t) \<Rightarrow>
        let s1 = s\<lparr>outerTask := t\<rparr>
        in if fired then outer c s1
           else (case checkAndUpdate currentTime (altitudeTask s1) of (fired', t') \<Rightarrow>
                   let s2 = s1\<lparr>altitudeTask := t'\<rparr>
                   in if fired' then call c (Alti_computePid (armed s2)) s2 else s2))"

definition update_inner ::
  "('w, 'f) collab \<Rightarrow> uint32_t \<Rightarrow> ('w, 'f) Hackflight \<Rightarrow> ('w, 'f) Hackflight" where
  "update_inner c currentTime s =
     (case checkAndUpdate currentTime (innerTask s) of (fired, t) \<Rightarrow>
        let s1 = s\<lparr>innerTask := t\<rparr>
        in if fired then inner c s1 else s1)"

definition update_angle ::
  "('w, 'f) collab \<Rightarrow> uint32_t \<Rightarrow> ('w, 'f) Hackflight \<Rightarrow> ('w, 'f) Hackflight" where
  "update_angle c currentTime s =
     (if ready currentTime (angleCheckTask s) then checkAngle c s else s)"

definition update_tasks :: "('w, 'f) collab \<Rightarrow> ('w, 'f) Hackflight \<Rightarrow> ('w, 'f) Hackflight" where
  "update_tasks c s =
     (let currentTime = getMicros c (world s)
      in update_angle c currentTime (update_inner c currentTime (update_outer c currentTime s)))"

definition update_failsafe ::
  "('w, 'f) collab \<Rightarrow> ('w, 'f) Hackflight \<Rightarrow> ('w, 'f) Hackflight" where
  "update_failsafe c s =
     (if armed s \<and> lostSignal c (world s) then
        (let s1 = call c Mixer_cutMotors s;
             s2 = s1\<lparr>armed := False, failsafe := True\<rparr>
         in call c (Board_ledSet False) s2)
      else s)"

definition update :: "('w, 'f) collab \<Rightarrow> ('w, 'f) Hackflight \<Rightarrow> ('w, 'f) Hackflight" where
  "update c s = update_failsafe c (update_tasks c s)"

text \<open>
  The external run loop: before each call of \<^verbatim>\<open>update\<close> the world outside (the clock,
  the radio link, the sensors) changes the collaborators in an arbitrary way.
\<close>

fun run ::
  "('w, 'f) collab \<Rightarrow> ('w \<Rightarrow> 'w) list \<Rightarrow> ('w, 'f) Hackflight \<Rightarrow> ('w, 'f) Hackflight" where
  "run c [] s = s"
| "run c (env # envs) s = run c envs (update c (s\<lparr>world := env (world s)\<rparr>))"

subsection \<open>The class IMU\<close>

text \<open>
  The accumulators of \<^verbatim>\<open>IMU\<close> and its method \<^verbatim>\<open>computeAccelZ\<close>, which returns the
  \<^verbatim>\<open>float\<close> made from the integer literal \<^verbatim>\<open>0\<close>. The arrays are lists; the three
  assignments are in range on an array of three.
\<close>

record IMU =
  accelSum :: "int32_t list"
  accelSumCount :: int32_t
  accelTimeSum :: uint32_t
  imu_eulerAngles :: "int16_t list"
  gyroRaw :: "int16_t list"

definition computeAccelZ :: "IMU \<Rightarrow> 'f::zero \<times> IMU" where
  "computeAccelZ imu =
     (let accelZ = 0;
          imu1 = imu\<lparr>accelSum := (accelSum imu)[0 := 0]\<rparr>;
          imu2 = imu1\<lparr>accelSum := (accelSum imu1)[1 := 0]\<rparr>;
          imu3 = imu2\<lparr>accelSum := (accelSum imu2)[2 := 0]\<rparr>;
          imu4 = imu3\<lparr>accelSumCount := 0\<rparr>;
          imu5 = imu4\<lparr>accelTimeSum := 0\<rparr>
      in (accelZ, imu5))"

subsection \<open>A bench double of the collaborators\<close>

text \<open>
  A concrete instance of the parameters, for running the model: the collaborators are
  a panel of switches that no call changes, \<^verbatim>\<open>float\<close> is \<open>int\<close> (angles in whole
  degrees), all demands and PID outputs are zero, and the IMU leaves the angles as
  they are.
\<close>

record bench =
  micros :: uint32_t
  signal_lost :: bool
  throttle_down :: bool
  sticks_changed :: bool
  sticks_disarm :: bool
  sticks_arm :: bool
  aux_switch :: uint8_t

definition bench_collab :: "(bench, int) collab" where
  "bench_collab =
     \<lparr>effect = (\<lambda>ev w. w),
      getMicros = micros,
      getImu = (\<lambda>w angles. (angles, \<lparr>AXIS_ROLL = 0, AXIS_PITCH = 0, AXIS_YAW = 0\<rparr>)),
      lostSignal = signal_lost,
      throttleIsDown = throttle_down,
      changed = sticks_changed,
      disarming = sticks_disarm,
      arming = sticks_arm,
      getAuxState = aux_switch,
      demandThrottle = (\<lambda>w. 0),
      pidRoll = (\<lambda>w. 0),
      pidPitch = (\<lambda>w. 0),
      pidYaw = (\<lambda>w. 0),
      maxArmingAngle = (\<lambda>w. 25),
      float_sub = (\<lambda>a b. a - b),
      float_is_negative = (\<lambda>a. a < 0),
      float_add_2pi = (\<lambda>a. a + 360),
      float_fabs_less = (\<lambda>a b. \<bar>a\<bar> < b)\<rparr>"

text \<open>The panel with every switch off and the clock at \<open>t\<close>.\<close>

definition bench_at :: "uint32_t \<Rightarrow> bench" where
  "bench_at t =
     \<lparr>micros = t, signal_lost = False, throttle_down = False, sticks_changed = False,
      sticks_disarm = False, sticks_arm = False, aux_switch = 0\<rparr>"

text \<open>A \<^verbatim>\<open>Hackflight\<close> object with every field zero, on the bench.\<close>

definition bench_zero :: "(bench, int) Hackflight" where
  "bench_zero =
     \<lparr>world = bench_at 0, calls = [],
      innerTask = \<lparr>period = 0, lastFired = 0\<rparr>,
      outerTask = \<lparr>period = 0, lastFired = 0\<rparr>,
      angleCheckTask = \<lparr>period = 0, lastFired = 0\<rparr>,
      altitudeTask = \<lparr>period = 0, lastFired = 0\<rparr>,
      armed = False, failsafe = False, yawInitial = 0, auxState = 0,
      eulerAngles = \<lparr>AXIS_ROLL = 0, AXIS_PITCH = 0, AXIS_YAW = 0\<rparr>,
      safeToArm = False\<rparr>"

text \<open>
  The object as \<^verbatim>\<open>init\<close> leaves its flags and its four tasks, with an orientation
  sample in the cache.
\<close>

definition bench_ready :: "(bench, int) Hackflight" where
  "bench_ready =
     bench_zero\<lparr>innerTask := TimedTask_init 3500, outerTask := TimedTask_init 10000,
       angleCheckTask := TimedTask_init 500000, altitudeTask := TimedTask_init 25000,
       eulerAngles := \<lparr>AXIS_ROLL = 2, AXIS_PITCH = - 3, AXIS_YAW = 90\<rparr>\<rparr>"

text \<open>
  The object after two passes of the outer loop: the pilot arms at heading 90 with the
  aux switch at zero, then moves the aux switch to 1.
\<close>

definition bench_flown :: "(bench, int) Hackflight" where
  "bench_flown =
     outer bench_collab
       ((outer bench_collab
          (bench_ready\<lparr>safeToArm := True,
             world := (bench_at 10000)\<lparr>sticks_changed := True, sticks_arm := True\<rparr>\<rparr>))
        \<lparr>world := (bench_at 20000)\<lparr>aux_switch := 1\<rparr>\<rparr>)"

subsection \<open>Reading the trace\<close>

text \<open>The three commands \<^verbatim>\<open>Hackflight\<close> gives the mixer once it is initialised.\<close>

fun mixer_run :: "'f call \<Rightarrow> bool" where
  "mixer_run Mixer_cutMotors = True"
| "mixer_run Mixer_runDisarmed = True"
| "mixer_run (Mixer_runArmed t r p y) = True"
| "mixer_run _ = False"

text \<open>The altitude controller's aux-change hook.\<close>

fun aux_hook :: "'f call \<Rightarrow> bool" where
  "aux_hook (Alti_handleAuxSwitch a t) = True"
| "aux_hook _ = False"

text \<open>
  The marks of the two handlers that share the first statement of \<^verbatim>\<open>update\<close>:
  \<^verbatim>\<open>receiver->update()\<close> is the first statement of \<^verbatim>\<open>outer\<close> and is called nowhere
  else, and \<^verbatim>\<open>alti.computePid\<close> is the altitude-PID handler.
\<close>

fun outer_or_altitude :: "'f call \<Rightarrow> bool" where
  "outer_or_altitude Receiver_update = True"
| "outer_or_altitude (Alti_computePid a) = True"
| "outer_or_altitude _ = False"

section \<open>Properties\<close>

subsection \<open>What each part leaves alone\<close>

lemmas handler_defs =
  update_def update_tasks_def update_failsafe_def update_angle_def update_inner_def
  update_outer_def outer_def outer_receiver_def outer_commands_def outer_arm_def
  outer_aux_def inner_def inner_stabilize_def inner_mixer_def checkAngle_def call_def
  checkAndUpdate_def ready_def TimedTask_init_def

lemmas bench_defs =
  bench_collab_def bench_at_def bench_zero_def bench_ready_def bench_flown_def

lemma call_simps [simp]:
  "world (call c ev s) = effect c ev (world s)"
  "calls (call c ev s) = calls s @ [ev]"
  "innerTask (call c ev s) = innerTask s"
  "outerTask (call c ev s) = outerTask s"
  "angleCheckTask (call c ev s) = angleCheckTask s"
  "altitudeTask (call c ev s) = altitudeTask s"
  "armed (call c ev s) = armed s"
  "failsafe (call c ev s) = failsafe s"
  "yawInitial (call c ev s) = yawInitial s"
  "auxState (call c ev s) = auxState s"
  "eulerAngles (call c ev s) = eulerAngles s"
  "safeToArm (call c ev s) = safeToArm s"
  by (simp_all add: call_def)

text \<open>Whatever no collaborator call changes, the flashing of the LED does not change.\<close>

lemma flashLed_loop_keeps:
  assumes "\<And>ev s. f (call c ev s) = f s"
  shows "f (flashLed_loop c p i s) = f s"
  using assms
proof (induction c p i s rule: flashLed_loop.induct)
  case (1 c pauseMilli i s)
  note keep = \<open>\<And>ev s. f (call c ev s) = f s\<close>
  show ?case
  proof (cases "(ucast i :: uint32_t) < ledFlashCount")
    case True
    then have "f (flashLed_loop c pauseMilli i s) =
      f (flashLed_loop c pauseMilli (i + 1)
          (call c (Board_delayMilliseconds pauseMilli)
            (call c (Board_ledSet False)
              (call c (Board_delayMilliseconds pauseMilli)
                (call c (Board_ledSet True) s)))))"
      by (subst flashLed_loop.simps) (simp del: flashLed_loop.simps)
    also have "\<dots> = f (call c (Board_delayMilliseconds pauseMilli)
            (call c (Board_ledSet False)
              (call c (Board_delayMilliseconds pauseMilli)
                (call c (Board_ledSet True) s))))"
      using "1.IH" [OF True keep] .
    also have "\<dots> = f s"
      by (simp only: keep)
    finally show ?thesis .
  next
    case False
    then show ?thesis
      by (subst flashLed_loop.simps) (simp del: flashLed_loop.simps)
  qed
qed

lemma flashLed_keeps:
  assumes "\<And>ev s. f (call c ev s) = f s"
  shows "f (flashLed c s) = f s"
  by (simp only: flashLed_def Let_def flashLed_loop_keeps [where f = f, OF assms] assms)

lemma flashLed_fields [simp]:
  "armed (flashLed c s) = armed s"
  "failsafe (flashLed c s) = failsafe s"
  "safeToArm (flashLed c s) = safeToArm s"
  "auxState (flashLed c s) = auxState s"
  "yawInitial (flashLed c s) = yawInitial s"
  "eulerAngles (flashLed c s) = eulerAngles s"
  by (rule flashLed_keeps, simp)+

lemma init_fields:
  "armed (init c s) = False"
  "safeToArm (init c s) = False"
  "failsafe (init c s) = False"
  "auxState (init c s) = auxState s"
  "yawInitial (init c s) = yawInitial s"
  "eulerAngles (init c s) = eulerAngles s"
  "innerTask (init c s) = TimedTask_init 3500"
  "outerTask (init c s) = TimedTask_init 10000"
  "angleCheckTask (init c s) = TimedTask_init 500000"
  "altitudeTask (init c s) = TimedTask_init 25000"
  by (simp_all add: init_def Let_def
      imuLoopMicro_def rcLoopMilli_def angleCheckMilli_def altHoldLoopMilli_def)

lemma outer_receiver_fields [simp]:
  "innerTask (outer_receiver c s) = innerTask s"
  "outerTask (outer_receiver c s) = outerTask s"
  "angleCheckTask (outer_receiver c s) = angleCheckTask s"
  "altitudeTask (outer_receiver c s) = altitudeTask s"
  "armed (outer_receiver c s) = armed s"
  "failsafe (outer_receiver c s) = failsafe s"
  "yawInitial (outer_receiver c s) = yawInitial s"
  "auxState (outer_receiver c s) = auxState s"
  "eulerAngles (outer_receiver c s) = eulerAngles s"
  "safeToArm (outer_receiver c s) = safeToArm s"
  by (simp_all add: outer_receiver_def Let_def)

lemma outer_commands_fields [simp]:
  "world (outer_commands c s) = world s"
  "calls (outer_commands c s) = calls s"
  "innerTask (outer_commands c s) = innerTask s"
  "outerTask (outer_commands c s) = outerTask s"
  "angleCheckTask (outer_commands c s) = angleCheckTask s"
  "altitudeTask (outer_commands c s) = altitudeTask s"
  "failsafe (outer_commands c s) = failsafe s"
  "eulerAngles (outer_commands c s) = eulerAngles s"
  "safeToArm (outer_commands c s) = safeToArm s"
  by (simp_all add: outer_commands_def outer_arm_def Let_def)

lemma outer_aux_fields [simp]:
  "innerTask (outer_aux c s) = innerTask s"
  "outerTask (outer_aux c s) = outerTask s"
  "angleCheckTask (outer_aux c s) = angleCheckTask s"
  "altitudeTask (outer_aux c s) = altitudeTask s"
  "armed (outer_aux c s) = armed s"
  "failsafe (outer_aux c s) = failsafe s"
  "yawInitial (outer_aux c s) = yawInitial s"
  "eulerAngles (outer_aux c s) = eulerAngles s"
  "safeToArm (outer_aux c s) = safeToArm s"
  by (simp_all add: outer_aux_def Let_def)

lemma outer_fields [simp]:
  "innerTask (outer c s) = innerTask s"
  "outerTask (outer c s) = outerTask s"
  "angleCheckTask (outer c s) = angleCheckTask s"
  "altitudeTask (outer c s) = altitudeTask s"
  "failsafe (outer c s) = failsafe s"
  "eulerAngles (outer c s) = eulerAngles s"
  "safeToArm (outer c s) = safeToArm s"
  by (simp_all add: outer_def)

lemma inner_stabilize_fields [simp]:
  "innerTask (inner_stabilize c s) = innerTask s"
  "outerTask (inner_stabilize c s) = outerTask s"
  "angleCheckTask (inner_stabilize c s) = angleCheckTask s"
  "altitudeTask (inner_stabilize c s) = altitudeTask s"
  "armed (inner_stabilize c s) = armed s"
  "failsafe (inner_stabilize c s) = failsafe s"
  "yawInitial (inner_stabilize c s) = yawInitial s"
  "auxState (inner_stabilize c s) = auxState s"
  "safeToArm (inner_stabilize c s) = safeToArm s"
  by (simp_all add: inner_stabilize_def Let_def)

lemma inner_fields [simp]:
  "innerTask (inner c s) = innerTask s"
  "outerTask (inner c s) = outerTask s"
  "angleCheckTask (inner c s) = angleCheckTask s"
  "altitudeTask (inner c s) = altitudeTask s"
  "armed (inner c s) = armed s"
  "failsafe (inner c s) = failsafe s"
  "yawInitial (inner c s) = yawInitial s"
  "auxState (inner c s) = auxState s"
  "safeToArm (inner c s) = safeToArm s"
  by (simp_all add: inner_def inner_mixer_def Let_def)

lemma checkAngle_fields [simp]:
  "world (checkAngle c s) = world s"
  "calls (checkAngle c s) = calls s"
  "innerTask (checkAngle c s) = innerTask s"
  "outerTask (checkAngle c s) = outerTask s"
  "angleCheckTask (checkAngle c s) = angleCheckTask s"
  "altitudeTask (checkAngle c s) = altitudeTask s"
  "armed (checkAngle c s) = armed s"
  "failsafe (checkAngle c s) = failsafe s"
  "yawInitial (checkAngle c s) = yawInitial s"
  "auxState (checkAngle c s) = auxState s"
  "eulerAngles (checkAngle c s) = eulerAngles s"
  by (simp_all add: checkAngle_def)

lemma update_failsafe_fields [simp]:
  "innerTask (update_failsafe c s) = innerTask s"
  "outerTask (update_failsafe c s) = outerTask s"
  "angleCheckTask (update_failsafe c s) = angleCheckTask s"
  "altitudeTask (update_failsafe c s) = altitudeTask s"
  by (simp_all add: update_failsafe_def Let_def)

lemma update_tasks_failsafe [simp]: "failsafe (update_tasks c s) = failsafe s"
  by (simp add: update_tasks_def update_angle_def update_inner_def update_outer_def
      Let_def split: prod.split)

lemma update_failsafe_keeps_flag: "failsafe s \<Longrightarrow> failsafe (update_failsafe c s)"
  by (simp add: update_failsafe_def Let_def)

lemma update_keeps_flag: "failsafe s \<Longrightarrow> failsafe (update c s)"
  by (simp add: update_def update_failsafe_keeps_flag)

lemma run_keeps_flag: "failsafe s \<Longrightarrow> failsafe (run c envs s)"
  by (induction envs arbitrary: s) (simp_all add: update_keeps_flag)

subsection \<open>Which calls each part makes\<close>

lemma outer_or_altitude_inner [simp]:
  "filter outer_or_altitude (calls (inner c s)) = filter outer_or_altitude (calls s)"
  by (simp add: inner_def inner_stabilize_def inner_mixer_def Let_def)

lemma outer_or_altitude_outer [simp]:
  "filter outer_or_altitude (calls (outer c s)) =
     filter outer_or_altitude (calls s) @ [Receiver_update]"
  by (simp add: outer_def outer_aux_def outer_receiver_def Let_def)

lemma outer_or_altitude_update_failsafe [simp]:
  "filter outer_or_altitude (calls (update_failsafe c s)) = filter outer_or_altitude (calls s)"
  by (simp add: update_failsafe_def Let_def)

lemma mixer_run_inner_stabilize [simp]:
  "filter mixer_run (calls (inner_stabilize c s)) = filter mixer_run (calls s)"
  by (simp add: inner_stabilize_def Let_def)

lemma aux_hook_outer_receiver [simp]:
  "filter aux_hook (calls (outer_receiver c s)) = filter aux_hook (calls s)"
  by (simp add: outer_receiver_def Let_def)

subsection \<open>The failsafe at the end of every tick\<close>

text \<open>
  Claim C1. Let \<open>s'\<close> be the object when \<^verbatim>\<open>update\<close> reaches its failsafe statement, that
  is after the task handlers of this tick have run. On every call of \<^verbatim>\<open>update\<close>, whichever
  handlers ran: if \<open>armed\<close> is true in \<open>s'\<close> and the receiver reports a lost signal, then
  \<^verbatim>\<open>update\<close> returns \<open>s'\<close> with the mixer told to cut the motors, \<open>armed\<close> false,
  \<open>failsafe\<close> true and the LED set off, these two calls being the last of the tick;
  otherwise it returns \<open>s'\<close>.
\<close>

theorem update_failsafe_cutoff:
  assumes "s' = update_tasks c s"
  shows "update c s =
           (if armed s' \<and> lostSignal c (world s') then
              s'\<lparr>world := effect c (Board_ledSet False) (effect c Mixer_cutMotors (world s')),
                 calls := calls s' @ [Mixer_cutMotors, Board_ledSet False],
                 armed := False, failsafe := True\<rparr>
            else s')
         \<and> (armed s' \<and> lostSignal c (world s') \<longrightarrow>
              \<not> armed (update c s) \<and> failsafe (update c s)
              \<and> calls (update c s) = calls s' @ [Mixer_cutMotors, Board_ledSet False])"
  using assms by (simp add: update_def update_failsafe_def call_def Let_def)

text \<open>
  On the bench: armed, the signal lost, at a time when the outer and the inner loop are
  both due. The inner loop still runs the mixer armed; the failsafe has the last word.
\<close>

theorem update_failsafe_cutoff_witness:
  "armed (update_tasks bench_collab
      (bench_ready\<lparr>armed := True, world := (bench_at 10000)\<lparr>signal_lost := True\<rparr>\<rparr>))
   \<and> lostSignal bench_collab (world (update_tasks bench_collab
      (bench_ready\<lparr>armed := True, world := (bench_at 10000)\<lparr>signal_lost := True\<rparr>\<rparr>)))
   \<and> \<not> armed (update bench_collab
      (bench_ready\<lparr>armed := True, world := (bench_at 10000)\<lparr>signal_lost := True\<rparr>\<rparr>))
   \<and> failsafe (update bench_collab
      (bench_ready\<lparr>armed := True, world := (bench_at 10000)\<lparr>signal_lost := True\<rparr>\<rparr>))
   \<and> calls (update bench_collab
      (bench_ready\<lparr>armed := True, world := (bench_at 10000)\<lparr>signal_lost := True\<rparr>\<rparr>)) =
     [Receiver_update, Receiver_computeExpo 90, Board_getImu, Board_ledSet True,
      Alti_fuseWithImu \<lparr>AXIS_ROLL = 2, AXIS_PITCH = - 3, AXIS_YAW = 90\<rparr> True,
      Alti_modifyDemand,
      Stab_update \<lparr>AXIS_ROLL = 2, AXIS_PITCH = - 3, AXIS_YAW = 90\<rparr>
        \<lparr>AXIS_ROLL = 0, AXIS_PITCH = 0, AXIS_YAW = 0\<rparr>,
      Mixer_runArmed 0 0 0 0,
      Msp_update \<lparr>AXIS_ROLL = 2, AXIS_PITCH = - 3, AXIS_YAW = 90\<rparr> True,
      Mixer_cutMotors, Board_ledSet False]"
  using update_failsafe_cutoff [of
      "update_tasks bench_collab
         (bench_ready\<lparr>armed := True, world := (bench_at 10000)\<lparr>signal_lost := True\<rparr>\<rparr>)"
      bench_collab
      "bench_ready\<lparr>armed := True, world := (bench_at 10000)\<lparr>signal_lost := True\<rparr>\<rparr>"]
  by (simp add: handler_defs bench_defs)

subsection \<open>Arming\<close>

text \<open>
  Claim C2. In the slow-task handler \<^verbatim>\<open>outer\<close>, entered disarmed, \<open>armed\<close> becomes true
  if and only if the receiver (as it is after \<^verbatim>\<open>receiver->update()\<close>) reports changed
  inputs and an arm intent, \<open>failsafe\<close> is false, \<open>safeToArm\<close> is true and the
  receiver's aux state is zero; and when it becomes true, \<open>yawInitial\<close> is the yaw of
  the cached orientation.
\<close>

theorem outer_arms_iff:
  assumes "\<not> armed s" and "w = world (outer_receiver c s)"
  shows "(armed (outer c s) \<longleftrightarrow>
            changed c w \<and> arming c w \<and> \<not> failsafe s \<and> safeToArm s \<and> getAuxState c w = 0)
         \<and> (armed (outer c s) \<longrightarrow> yawInitial (outer c s) = AXIS_YAW (eulerAngles s))"
  using assms by (simp add: outer_def outer_commands_def outer_arm_def Let_def)

theorem outer_arms_iff_witness:
  "\<not> armed (bench_ready\<lparr>safeToArm := True,
       world := (bench_at 10000)\<lparr>sticks_changed := True, sticks_arm := True\<rparr>\<rparr>)
   \<and> armed (outer bench_collab (bench_ready\<lparr>safeToArm := True,
       world := (bench_at 10000)\<lparr>sticks_changed := True, sticks_arm := True\<rparr>\<rparr>))
   \<and> yawInitial (outer bench_collab (bench_ready\<lparr>safeToArm := True,
       world := (bench_at 10000)\<lparr>sticks_changed := True, sticks_arm := True\<rparr>\<rparr>)) = 90"
  using outer_arms_iff [of
      "bench_ready\<lparr>safeToArm := True,
         world := (bench_at 10000)\<lparr>sticks_changed := True, sticks_arm := True\<rparr>\<rparr>"
      "(bench_at 10000)\<lparr>sticks_changed := True, sticks_arm := True\<rparr>" bench_collab]
  by (simp add: outer_receiver_def call_def bench_defs)

subsection \<open>The failsafe flag is sticky\<close>

text \<open>
  Claim C3. From any state in which \<open>failsafe\<close> is true, it is still true after
  \<^verbatim>\<open>update\<close>, after each of the handlers \<^verbatim>\<open>outer\<close>, \<^verbatim>\<open>inner\<close>, \<^verbatim>\<open>checkAngle\<close> and the
  altitude-PID step, and after any number of ticks between which the world outside
  changes the collaborators at will (so also when the signal comes back); \<^verbatim>\<open>init\<close>
  clears it.
\<close>

theorem failsafe_sticky:
  assumes "failsafe s"
  shows "failsafe (update c s) \<and> failsafe (outer c s) \<and> failsafe (inner c s)
         \<and> failsafe (checkAngle c s) \<and> failsafe (call c (Alti_computePid (armed s)) s)
         \<and> failsafe (run c envs s) \<and> \<not> failsafe (init c s)"
  using assms by (simp add: update_keeps_flag run_keeps_flag init_fields)

text \<open>
  On the bench: in failsafe with the signal back, the pilot asks to arm at the next
  outer tick; two ticks later the object is still in failsafe and still disarmed.
\<close>

theorem failsafe_sticky_witness:
  "failsafe (bench_ready\<lparr>failsafe := True, safeToArm := True\<rparr>)
   \<and> failsafe (run bench_collab
        [\<lambda>w. w\<lparr>micros := 10000, sticks_changed := True, sticks_arm := True\<rparr>,
         \<lambda>w. w\<lparr>micros := 20000\<rparr>]
        (bench_ready\<lparr>failsafe := True, safeToArm := True\<rparr>))
   \<and> \<not> armed (run bench_collab
        [\<lambda>w. w\<lparr>micros := 10000, sticks_changed := True, sticks_arm := True\<rparr>,
         \<lambda>w. w\<lparr>micros := 20000\<rparr>]
        (bench_ready\<lparr>failsafe := True, safeToArm := True\<rparr>))
   \<and> \<not> failsafe (init bench_collab (bench_ready\<lparr>failsafe := True, safeToArm := True\<rparr>))"
  using failsafe_sticky [of "bench_ready\<lparr>failsafe := True, safeToArm := True\<rparr>" bench_collab
      "[\<lambda>w. w\<lparr>micros := 10000, sticks_changed := True, sticks_arm := True\<rparr>,
        \<lambda>w. w\<lparr>micros := 20000\<rparr>]"]
  by (simp add: handler_defs bench_defs)

subsection \<open>The outer loop and the altitude task exclude each other\<close>

text \<open>
  Claim C4. In one call of \<^verbatim>\<open>update\<close>, read at the time \<open>now\<close> of its clock: if the
  outer task's gate fires, the slow-task handler runs once, the altitude-PID handler
  does not run and the altitude task is left as it was, its gate not evaluated;
  if the outer task's gate does not fire, the altitude task's gate is evaluated, and
  the altitude-PID handler runs once if it fires and not at all otherwise; the
  slow-task handler does not run. The two handlers never both run.
\<close>

theorem outer_excludes_altitude:
  assumes "now = getMicros c (world s)"
  shows "filter outer_or_altitude (calls (update c s)) =
           filter outer_or_altitude (calls s) @
             (if fst (checkAndUpdate now (outerTask s)) then [Receiver_update]
              else if fst (checkAndUpdate now (altitudeTask s)) then [Alti_computePid (armed s)]
              else [])
         \<and> altitudeTask (update c s) =
             (if fst (checkAndUpdate now (outerTask s)) then altitudeTask s
              else snd (checkAndUpdate now (altitudeTask s)))"
  using assms
  by (simp add: update_def update_tasks_def update_angle_def update_inner_def
      update_outer_def Let_def split: prod.split)

text \<open>
  On the bench, at 25 ms both periods have elapsed: only the outer loop runs, and the
  altitude task keeps its baseline. One millisecond later the outer task has just
  fired, and the altitude task takes its turn.
\<close>

theorem outer_excludes_altitude_witness:
  "25000 = getMicros bench_collab (world (bench_ready\<lparr>world := bench_at 25000\<rparr>))
   \<and> fst (checkAndUpdate 25000 (altitudeTask (bench_ready\<lparr>world := bench_at 25000\<rparr>)))
   \<and> filter outer_or_altitude
        (calls (update bench_collab (bench_ready\<lparr>world := bench_at 25000\<rparr>))) =
      [Receiver_update]
   \<and> altitudeTask (update bench_collab (bench_ready\<lparr>world := bench_at 25000\<rparr>)) =
      \<lparr>period = 25000, lastFired = 0\<rparr>
   \<and> 26000 = getMicros bench_collab (world
        (bench_ready\<lparr>outerTask := \<lparr>period = 10000, lastFired = 25000\<rparr>,
           world := bench_at 26000\<rparr>))
   \<and> filter outer_or_altitude
        (calls (update bench_collab
          (bench_ready\<lparr>outerTask := \<lparr>period = 10000, lastFired = 25000\<rparr>,
             world := bench_at 26000\<rparr>))) =
      [Alti_computePid False]
   \<and> altitudeTask (update bench_collab
        (bench_ready\<lparr>outerTask := \<lparr>period = 10000, lastFired = 25000\<rparr>,
           world := bench_at 26000\<rparr>)) =
      \<lparr>period = 25000, lastFired = 26000\<rparr>"
  using outer_excludes_altitude [of 25000 bench_collab "bench_ready\<lparr>world := bench_at 25000\<rparr>"]
    outer_excludes_altitude [of 26000 bench_collab
      "bench_ready\<lparr>outerTask := \<lparr>period = 10000, lastFired = 25000\<rparr>,
         world := bench_at 26000\<rparr>"]
  by (simp add: checkAndUpdate_def TimedTask_init_def bench_defs)

subsection \<open>A refused arm request\<close>

text \<open>
  What the arming block does with a request it refuses: once the \<open>failsafe\<close> and
  \<open>safeToArm\<close> guards have passed, it has stored the receiver's aux state in the field
  \<open>auxState\<close> before testing it against zero; a request refused by one of the first
  two guards changes nothing.
\<close>

lemma outer_arm_refusal:
  assumes "\<not> armed s" and "arming c (world s)"
    and "failsafe s \<or> \<not> safeToArm s \<or> getAuxState c (world s) \<noteq> 0"
  shows "outer_arm c s =
           (if \<not> failsafe s \<and> safeToArm s then s\<lparr>auxState := getAuxState c (world s)\<rparr> else s)"
  using assms by (auto simp add: outer_arm_def Let_def)

text \<open>
  Claim C5 says that an arm request refused by a guard leaves every field of the
  object, \<open>auxState\<close> in particular, as it was. The code breaks it. On the bench:
  disarmed, not in failsafe, safe to arm, \<open>auxState\<close> 0, and the pilot asks to arm
  with the aux switch moved to 1. The request is refused, but the arming block has
  changed \<open>auxState\<close> from 0 to 1, so the detection of aux-switch changes at the end
  of \<^verbatim>\<open>outer\<close> finds nothing to detect and the altitude controller is never told of
  the switch: the only call of the pass is \<^verbatim>\<open>receiver->update()\<close>. The two sibling
  refusals, \<open>failsafe\<close> set or \<open>safeToArm\<close> false, leave \<open>auxState\<close> alone in the
  arming block, and the same pass calls the hook with the new position.
\<close>

theorem outer_arm_clobbers_auxState:
  "\<not> armed (bench_ready\<lparr>safeToArm := True,
       world := (bench_at 10000)\<lparr>sticks_changed := True, sticks_arm := True, aux_switch := 1\<rparr>\<rparr>)
   \<and> auxState (bench_ready\<lparr>safeToArm := True,
       world := (bench_at 10000)\<lparr>sticks_changed := True, sticks_arm := True, aux_switch := 1\<rparr>\<rparr>) = 0
   \<and> arming bench_collab (world (bench_ready\<lparr>safeToArm := True,
       world := (bench_at 10000)\<lparr>sticks_changed := True, sticks_arm := True, aux_switch := 1\<rparr>\<rparr>))
   \<and> getAuxState bench_collab (world (bench_ready\<lparr>safeToArm := True,
       world := (bench_at 10000)\<lparr>sticks_changed := True, sticks_arm := True, aux_switch := 1\<rparr>\<rparr>)) = 1
   \<and> \<not> armed (outer_arm bench_collab (bench_ready\<lparr>safeToArm := True,
       world := (bench_at 10000)\<lparr>sticks_changed := True, sticks_arm := True, aux_switch := 1\<rparr>\<rparr>))
   \<and> auxState (outer_arm bench_collab (bench_ready\<lparr>safeToArm := True,
       world := (bench_at 10000)\<lparr>sticks_changed := True, sticks_arm := True, aux_switch := 1\<rparr>\<rparr>)) = 1
   \<and> \<not> armed (outer bench_collab (bench_ready\<lparr>safeToArm := True,
       world := (bench_at 10000)\<lparr>sticks_changed := True, sticks_arm := True, aux_switch := 1\<rparr>\<rparr>))
   \<and> calls (outer bench_collab (bench_ready\<lparr>safeToArm := True,
       world := (bench_at 10000)\<lparr>sticks_changed := True, sticks_arm := True, aux_switch := 1\<rparr>\<rparr>)) =
      [Receiver_update]
   \<and> auxState (outer_arm bench_collab (bench_ready\<lparr>failsafe := True, safeToArm := True,
       world := (bench_at 10000)\<lparr>sticks_changed := True, sticks_arm := True, aux_switch := 1\<rparr>\<rparr>)) = 0
   \<and> calls (outer bench_collab (bench_ready\<lparr>failsafe := True, safeToArm := True,
       world := (bench_at 10000)\<lparr>sticks_changed := True, sticks_arm := True, aux_switch := 1\<rparr>\<rparr>)) =
      [Receiver_update, Alti_handleAuxSwitch 1 0]
   \<and> auxState (outer_arm bench_collab (bench_ready\<lparr>safeToArm := False,
       world := (bench_at 10000)\<lparr>sticks_changed := True, sticks_arm := True, aux_switch := 1\<rparr>\<rparr>)) = 0
   \<and> calls (outer bench_collab (bench_ready\<lparr>safeToArm := False,
       world := (bench_at 10000)\<lparr>sticks_changed := True, sticks_arm := True, aux_switch := 1\<rparr>\<rparr>)) =
      [Receiver_update, Alti_handleAuxSwitch 1 0]"
  by (simp add: outer_def outer_receiver_def outer_commands_def outer_arm_def outer_aux_def
      call_def bench_defs)

subsection \<open>What init assigns\<close>

text \<open>
  Claim C6, as amended. After \<^verbatim>\<open>init\<close> returns, \<open>armed\<close>, \<open>failsafe\<close> and \<open>safeToArm\<close>
  are false and the four tasks are initialised with their periods; \<^verbatim>\<open>init\<close> does not
  assign \<open>auxState\<close>, \<open>yawInitial\<close> or the cached orientation, which hold what they
  held when \<^verbatim>\<open>init\<close> was entered.
\<close>

theorem init_assigns:
  "armed (init c s) = False \<and> failsafe (init c s) = False \<and> safeToArm (init c s) = False
   \<and> auxState (init c s) = auxState s \<and> yawInitial (init c s) = yawInitial s
   \<and> eulerAngles (init c s) = eulerAngles s
   \<and> innerTask (init c s) = TimedTask_init 3500
   \<and> outerTask (init c s) = TimedTask_init 10000
   \<and> angleCheckTask (init c s) = TimedTask_init 500000
   \<and> altitudeTask (init c s) = TimedTask_init 25000"
  by (simp add: init_fields)

text \<open>
  Claim C6, as stated, fails. On the bench, an object that has armed at heading 90 and
  then seen the aux switch at 1 is initialised again: \<open>auxState\<close> is still 1,
  \<open>yawInitial\<close> is still 90 and the cached orientation is still the last sample.
\<close>

theorem init_assigns_counterexample:
  "auxState (init bench_collab bench_flown) = 1
   \<and> yawInitial (init bench_collab bench_flown) = 90
   \<and> eulerAngles (init bench_collab bench_flown) =
       \<lparr>AXIS_ROLL = 2, AXIS_PITCH = - 3, AXIS_YAW = 90\<rparr>"
  by (simp add: init_fields bench_defs outer_def outer_receiver_def outer_commands_def
      outer_arm_def outer_aux_def call_def)

subsection \<open>One mixer command per pass of the inner loop\<close>

text \<open>
  Claim C7. Every pass of the fast-task handler \<^verbatim>\<open>inner\<close> gives the mixer exactly one
  command: the disarmed run if the object is not armed; the armed run with the throttle
  demand and the roll, pitch and yaw PID outputs if it is armed, not in failsafe and
  the throttle is not down; the motor cut if it is armed and in failsafe or the
  throttle is down. Demand, PID outputs and throttle position are read after
  \<^verbatim>\<open>stab.update\<close>, where the source reads them.
\<close>

theorem inner_mixer_once:
  assumes "w = world (inner_stabilize c s)"
  shows "filter mixer_run (calls (inner c s)) =
           filter mixer_run (calls s) @
             [if \<not> armed s then Mixer_runDisarmed
              else if \<not> failsafe s \<and> \<not> throttleIsDown c w then
                Mixer_runArmed (demandThrottle c w) (pidRoll c w) (pidPitch c w) (pidYaw c w)
              else Mixer_cutMotors]"
  using assms by (simp add: inner_def inner_mixer_def Let_def)

text \<open>On the bench: armed with the throttle down, disarmed, and armed with the throttle up.\<close>

theorem inner_mixer_once_witness:
  "bench_at 3500\<lparr>throttle_down := True\<rparr> =
     world (inner_stabilize bench_collab
       (bench_ready\<lparr>armed := True, world := bench_at 3500\<lparr>throttle_down := True\<rparr>\<rparr>))
   \<and> filter mixer_run (calls (inner bench_collab
       (bench_ready\<lparr>armed := True, world := bench_at 3500\<lparr>throttle_down := True\<rparr>\<rparr>))) =
      [Mixer_cutMotors]
   \<and> bench_at 3500 = world (inner_stabilize bench_collab (bench_ready\<lparr>world := bench_at 3500\<rparr>))
   \<and> filter mixer_run (calls (inner bench_collab (bench_ready\<lparr>world := bench_at 3500\<rparr>))) =
      [Mixer_runDisarmed]
   \<and> bench_at 3500 =
      world (inner_stabilize bench_collab (bench_ready\<lparr>armed := True, world := bench_at 3500\<rparr>))
   \<and> filter mixer_run
        (calls (inner bench_collab (bench_ready\<lparr>armed := True, world := bench_at 3500\<rparr>))) =
      [Mixer_runArmed 0 0 0 0]"
  using inner_mixer_once [of "bench_at 3500\<lparr>throttle_down := True\<rparr>" bench_collab
      "bench_ready\<lparr>armed := True, world := bench_at 3500\<lparr>throttle_down := True\<rparr>\<rparr>"]
    inner_mixer_once [of "bench_at 3500" bench_collab "bench_ready\<lparr>world := bench_at 3500\<rparr>"]
    inner_mixer_once [of "bench_at 3500" bench_collab
      "bench_ready\<lparr>armed := True, world := bench_at 3500\<rparr>"]
  by (simp add: inner_stabilize_def call_def Let_def bench_defs)

subsection \<open>The periodic-task gate\<close>

text \<open>
  The gate as modelled above: after \<open>TimedTask_init p\<close> the period is \<open>p\<close> and the
  baseline is time zero; a consuming check fires exactly when \<open>now - lastFired\<close> is at
  least the period, then sets \<open>lastFired\<close> to \<open>now\<close>, and otherwise changes nothing.
\<close>

lemma checkAndUpdate_fires:
  "lastFired (TimedTask_init p) = 0 \<and> period (TimedTask_init p) = p
   \<and> (fst (checkAndUpdate now t) \<longleftrightarrow> period t \<le> now - lastFired t)
   \<and> snd (checkAndUpdate now t) =
       (if fst (checkAndUpdate now t) then t\<lparr>lastFired := now\<rparr> else t)"
  by (simp add: TimedTask_init_def checkAndUpdate_def)

text \<open>
  The specification's scenario (a period of 10 ms, consuming checks at 0, 5, 10 and
  15 ms) depends on the baseline, which only the absent header fixes. From the
  baseline at time zero the check at 0 finds nothing elapsed and the results are
  false, false, true, false; from a baseline one period before time zero the same
  check gives true, false, true, false.
\<close>

lemma checks_scenario_baselines:
  "checks (TimedTask_init 10000) [0, 5000, 10000, 15000] = [False, False, True, False]
   \<and> checks \<lparr>period = 10000, lastFired = 0 - 10000\<rparr> [0, 5000, 10000, 15000] =
       [True, False, True, False]"
  by (simp add: TimedTask_init_def checkAndUpdate_def)

subsection \<open>The aux switch\<close>

text \<open>
  Claim C9. On every pass of the slow-task handler \<^verbatim>\<open>outer\<close>, let \<open>s'\<close> be the object
  when the handler reaches its detection of aux-switch changes. If the receiver's aux
  state differs from \<open>auxState\<close> there, \<open>auxState\<close> takes the receiver's aux state and
  the altitude controller's hook is called once, with that aux state and the throttle
  demand, and nothing else changes; if they are equal, the handler returns \<open>s'\<close>:
  no call, \<open>auxState\<close> as it was. The hook is called nowhere else in the handler.
\<close>

theorem outer_aux_edge:
  assumes "s' = outer_commands c (outer_receiver c s)"
  shows "outer c s =
           (if getAuxState c (world s') \<noteq> auxState s' then
              s'\<lparr>world := effect c (Alti_handleAuxSwitch (getAuxState c (world s'))
                                    (demandThrottle c (world s'))) (world s'),
                 calls := calls s' @ [Alti_handleAuxSwitch (getAuxState c (world s'))
                                        (demandThrottle c (world s'))],
                 auxState := getAuxState c (world s')\<rparr>
            else s')
         \<and> filter aux_hook (calls (outer c s)) =
             filter aux_hook (calls s) @
               (if getAuxState c (world s') \<noteq> auxState s' then
                  [Alti_handleAuxSwitch (getAuxState c (world s')) (demandThrottle c (world s'))]
                else [])"
  using assms by (simp add: outer_def outer_aux_def call_def Let_def)

text \<open>
  On the bench, the scenario of the specification: armed with \<open>auxState\<close> 0, the pilot
  moves the aux switch to 1; the next pass calls the hook once with 1 and the throttle
  demand, and \<open>auxState\<close> is 1.
\<close>

theorem outer_aux_edge_witness:
  "bench_ready\<lparr>armed := True, world := bench_at 10000\<lparr>aux_switch := 1\<rparr>,
       calls := [Receiver_update]\<rparr> =
     outer_commands bench_collab (outer_receiver bench_collab
       (bench_ready\<lparr>armed := True, world := bench_at 10000\<lparr>aux_switch := 1\<rparr>\<rparr>))
   \<and> auxState (bench_ready\<lparr>armed := True, world := bench_at 10000\<lparr>aux_switch := 1\<rparr>\<rparr>) = 0
   \<and> auxState (outer bench_collab
       (bench_ready\<lparr>armed := True, world := bench_at 10000\<lparr>aux_switch := 1\<rparr>\<rparr>)) = 1
   \<and> calls (outer bench_collab
       (bench_ready\<lparr>armed := True, world := bench_at 10000\<lparr>aux_switch := 1\<rparr>\<rparr>)) =
      [Receiver_update, Alti_handleAuxSwitch 1 0]"
  using outer_aux_edge [of
      "bench_ready\<lparr>armed := True, world := bench_at 10000\<lparr>aux_switch := 1\<rparr>,
         calls := [Receiver_update]\<rparr>"
      bench_collab
      "bench_ready\<lparr>armed := True, world := bench_at 10000\<lparr>aux_switch := 1\<rparr>\<rparr>"]
  by (simp add: outer_commands_def outer_receiver_def call_def Let_def bench_defs)

subsection \<open>The accumulators of the IMU\<close>

text \<open>
  Claim C10. Every call of \<^verbatim>\<open>IMU::computeAccelZ\<close> returns exactly 0 and sets the three
  entries of \<open>accelSum\<close>, \<open>accelSumCount\<close> and \<open>accelTimeSum\<close> to zero, whatever they
  held before; the other fields keep their values. The hypothesis is the declaration
  \<^verbatim>\<open>int32_t accelSum[3]\<close>.
\<close>

theorem computeAccelZ_resets:
  assumes "length (accelSum imu) = 3"
  shows "computeAccelZ imu =
           (0 :: 'f::zero, imu\<lparr>accelSum := [0, 0, 0], accelSumCount := 0, accelTimeSum := 0\<rparr>)"
proof -
  from assms obtain x y z where "accelSum imu = [x, y, z]"
    by (auto simp: numeral_3_eq_3 length_Suc_conv)
  then show ?thesis
    by (simp add: computeAccelZ_def)
qed

theorem computeAccelZ_resets_witness:
  "length (accelSum \<lparr>accelSum = [5, - 3, 7], accelSumCount = 4, accelTimeSum = 14000,
      imu_eulerAngles = [1, 2, 3], gyroRaw = [0, 0, 0]\<rparr>) = 3
   \<and> computeAccelZ \<lparr>accelSum = [5, - 3, 7], accelSumCount = 4, accelTimeSum = 14000,
      imu_eulerAngles = [1, 2, 3], gyroRaw = [0, 0, 0]\<rparr> =
     (0 :: int, \<lparr>accelSum = [0, 0, 0], accelSumCount = 0, accelTimeSum = 0,
      imu_eulerAngles = [1, 2, 3], gyroRaw = [0, 0, 0]\<rparr>)"
  using computeAccelZ_resets [of "\<lparr>accelSum = [5, - 3, 7], accelSumCount = 4,
      accelTimeSum = 14000, imu_eulerAngles = [1, 2, 3], gyroRaw = [0, 0, 0]\<rparr>",
      where 'f = int]
  by simp

end
